theory Spec2Isabelle
  imports Main "HOL-Library.Sublist" "HOL-Library.List_Lexorder" "HOL-Library.Char_ord"
    "HOL-Library.Multiset"
begin

section \<open>Values, exceptions and the two backing stores\<close>

text \<open>
  The media platform keeps metadata documents in two Cosmos containers and binary content
  in a blob store. A Python dict stored in a container becomes a record with one field per
  key; a raised exception becomes the left injection of a sum; the loggers become one list
  of (level, message) pairs that every operation threads through the state.
\<close>

text \<open>What \<^verbatim>\<open>json.loads\<close> can return (numbers are kept to the integers).\<close>

datatype json =
    JNull
  | JBool bool
  | JNumber int
  | JString string
  | JArray "json list"
  | JObject "(string \<times> json) list"

text \<open>
  The exception classes the handlers distinguish, each with its message.
  \<^verbatim>\<open>JSONDecodeError\<close> and pydantic's \<^verbatim>\<open>ValidationError\<close> are subclasses of
  \<^verbatim>\<open>ValueError\<close>; the two specific Cosmos errors are subclasses of
  \<^verbatim>\<open>CosmosHttpResponseError\<close>.
\<close>

datatype exn =
    HTTPException nat string
  | JSONDecodeError string
  | ValidationError string
  | ValueError string
  | CosmosResourceNotFoundError string
  | CosmosResourceExistsError string
  | CosmosHttpResponseError string
  | BlobError string

fun str_exn :: "exn \<Rightarrow> string" where
  "str_exn (HTTPException c d) = d"
| "str_exn (JSONDecodeError m) = m"
| "str_exn (ValidationError m) = m"
| "str_exn (ValueError m) = m"
| "str_exn (CosmosResourceNotFoundError m) = m"
| "str_exn (CosmosResourceExistsError m) = m"
| "str_exn (CosmosHttpResponseError m) = m"
| "str_exn (BlobError m) = m"

fun is_HTTPException :: "exn \<Rightarrow> bool" where
  "is_HTTPException (HTTPException c d) = True"
| "is_HTTPException e = False"

fun is_ValueError :: "exn \<Rightarrow> bool" where
  "is_ValueError (ValueError m) = True"
| "is_ValueError (JSONDecodeError m) = True"
| "is_ValueError (ValidationError m) = True"
| "is_ValueError e = False"

fun is_CosmosHttpResponseError :: "exn \<Rightarrow> bool" where
  "is_CosmosHttpResponseError (CosmosHttpResponseError m) = True"
| "is_CosmosHttpResponseError (CosmosResourceNotFoundError m) = True"
| "is_CosmosHttpResponseError (CosmosResourceExistsError m) = True"
| "is_CosmosHttpResponseError e = False"

text \<open>
  A document of the \<^verbatim>\<open>media\<close> container, with the keys of the dict built in
  \<^verbatim>\<open>process_file_upload\<close>. The key \<^verbatim>\<open>id\<close> is the field \<open>mid\<close>. Timestamps are
  the ISO strings of \<^verbatim>\<open>datetime.utcnow().isoformat()\<close>, ordered as strings.
\<close>

record media_doc =
  mid :: string
  mediaType :: string
  userId :: string
  originalFileName :: string
  fileName :: string
  mimeType :: string
  fileSize :: int
  description :: "string option"
  blobUrl :: string
  tags :: "json list option"
  thumbnailUrl :: "string option"
  uploadedAt :: string
  updatedAt :: string

text \<open>A document of the \<^verbatim>\<open>users\<close> container; its key \<^verbatim>\<open>id\<close> is the field \<open>uid\<close>.\<close>

record user_doc =
  uid :: string
  email :: string
  username :: string
  hashed_password :: string
  created_at :: string

text \<open>
  The state shared by all requests: the two containers in insertion order, the keys present
  in the blob store, the keys on which the blob backend currently raises, whether the
  Cosmos service is unreachable, and the log.
\<close>

record state =
  media_container :: "media_doc list"
  users_container :: "user_doc list"
  blobs :: "string list"
  blob_faults :: "string list"
  cosmos_down :: bool
  log :: "(string \<times> string) list"

definition logged :: "string \<Rightarrow> string \<Rightarrow> state \<Rightarrow> state" where
  "logged level msg s = s\<lparr>log := log s @ [(level, msg)]\<rparr>"

subsection \<open>The Cosmos container operations\<close>

text \<open>
  The \<^verbatim>\<open>media\<close> container is created with partition key \<^verbatim>\<open>/userId\<close>, the
  \<^verbatim>\<open>users\<close> container with \<^verbatim>\<open>/id\<close>. A point operation names an id and a partition
  key value and sees only the document that has both; an id is unique inside one partition.
\<close>

definition unavailable :: exn where
  "unavailable = CosmosHttpResponseError ''Service Unavailable''"

definition media_read_item :: "state \<Rightarrow> string \<Rightarrow> string \<Rightarrow> exn + media_doc" where
  "media_read_item s item partition_key =
     (if cosmos_down s then Inl unavailable
      else case find (\<lambda>d. mid d = item \<and> userId d = partition_key) (media_container s) of
             None \<Rightarrow> Inl (CosmosResourceNotFoundError ''NotFound'')
           | Some d \<Rightarrow> Inr d)"

definition media_create_item :: "state \<Rightarrow> media_doc \<Rightarrow> (exn + media_doc) \<times> state" where
  "media_create_item s body =
     (if cosmos_down s then (Inl unavailable, s)
      else if \<exists>d \<in> set (media_container s). mid d = mid body \<and> userId d = userId body
      then (Inl (CosmosResourceExistsError ''Conflict''), s)
      else (Inr body, s\<lparr>media_container := media_container s @ [body]\<rparr>))"

definition media_replace_item :: "state \<Rightarrow> string \<Rightarrow> media_doc \<Rightarrow> (exn + media_doc) \<times> state" where
  "media_replace_item s item body =
     (if cosmos_down s then (Inl unavailable, s)
      else if mid body \<noteq> item then (Inl (CosmosHttpResponseError ''BadRequest''), s)
      else if \<exists>d \<in> set (media_container s). mid d = item \<and> userId d = userId body
      then (Inr body,
            s\<lparr>media_container :=
                map (\<lambda>d. if mid d = item \<and> userId d = userId body then body else d)
                  (media_container s)\<rparr>)
      else (Inl (CosmosResourceNotFoundError ''NotFound''), s))"

definition media_delete_item :: "state \<Rightarrow> string \<Rightarrow> string \<Rightarrow> (exn + unit) \<times> state" where
  "media_delete_item s item partition_key =
     (if cosmos_down s then (Inl unavailable, s)
      else if \<exists>d \<in> set (media_container s). mid d = item \<and> userId d = partition_key
      then (Inr (),
            s\<lparr>media_container :=
                filter (\<lambda>d. \<not> (mid d = item \<and> userId d = partition_key)) (media_container s)\<rparr>)
      else (Inl (CosmosResourceNotFoundError ''NotFound''), s))"

text \<open>
  The queries of the source are \<^verbatim>\<open>SELECT * ... WHERE w ORDER BY m.uploadedAt DESC\<close>, the
  same with \<^verbatim>\<open>OFFSET o LIMIT l\<close> appended, and the same with
  \<^verbatim>\<open>SELECT VALUE COUNT(1)\<close> in place of \<^verbatim>\<open>SELECT *\<close>. The order among documents
  with equal \<^verbatim>\<open>uploadedAt\<close> is the backend's; the model fixes one. A negative offset
  or limit is rejected by the service.
\<close>

definition order_by_uploadedAt_desc :: "media_doc list \<Rightarrow> media_doc list" where
  "order_by_uploadedAt_desc ds = rev (sort_key uploadedAt ds)"

definition select_ordered :: "state \<Rightarrow> (media_doc \<Rightarrow> bool) \<Rightarrow> media_doc list" where
  "select_ordered s w = order_by_uploadedAt_desc (filter w (media_container s))"

definition query_count :: "state \<Rightarrow> (media_doc \<Rightarrow> bool) \<Rightarrow> exn + int list" where
  "query_count s w =
     (if cosmos_down s then Inl unavailable
      else Inr [int (length (select_ordered s w))])"

definition query_offset_limit ::
  "state \<Rightarrow> (media_doc \<Rightarrow> bool) \<Rightarrow> int \<Rightarrow> int \<Rightarrow> exn + media_doc list" where
  "query_offset_limit s w skip limit =
     (if cosmos_down s then Inl unavailable
      else if skip < 0 \<or> limit < 0 then Inl (CosmosHttpResponseError ''BadRequest'')
      else Inr (take (nat limit) (drop (nat skip) (select_ordered s w))))"

definition users_query_by_email :: "state \<Rightarrow> string \<Rightarrow> exn + user_doc list" where
  "users_query_by_email s email_address =
     (if cosmos_down s then Inl unavailable
      else Inr (filter (\<lambda>u. email u = email_address) (users_container s)))"

subsection \<open>The blob store\<close>

text \<open>
  Modelled from the spec: \<^verbatim>\<open>blob_storage.upload_file\<close> and
  \<^verbatim>\<open>blob_storage.delete_file\<close> are not among the sources. The spec says that the
  stored name is derivable from the owner and the original file name, that its last path
  component is the file name, that an upload returns the key and an access URL, and that
  a delete by key can fail (a thumbnail key that does not match is such a failure). The
  model stores under \<open>owner/filename\<close>, gives the key behind a fixed base as URL, and
  lets a delete raise on a faulty or absent key. The content itself is not kept.
\<close>

definition blob_name :: "string \<Rightarrow> string \<Rightarrow> string" where
  "blob_name user_id filename = user_id @ ''/'' @ filename"

definition blob_url :: "string \<Rightarrow> string" where
  "blob_url name = ''https://blobs/'' @ name"

definition upload_file :: "state \<Rightarrow> string \<Rightarrow> string \<Rightarrow> (exn + string \<times> string) \<times> state" where
  "upload_file s user_id filename =
     (let name = blob_name user_id filename in
      if name \<in> set (blob_faults s) then (Inl (BlobError ''upload failed''), s)
      else (Inr (name, blob_url name), s\<lparr>blobs := List.insert name (blobs s)\<rparr>))"

definition delete_file :: "state \<Rightarrow> string \<Rightarrow> (exn + unit) \<times> state" where
  "delete_file s name =
     (if name \<in> set (blob_faults s) \<or> name \<notin> set (blobs s)
      then (Inl (BlobError ''delete failed''), s)
      else (Inr (), s\<lparr>blobs := removeAll name (blobs s)\<rparr>))"

section \<open>database.py: the repository layer\<close>

fun is_CosmosResourceNotFoundError :: "exn \<Rightarrow> bool" where
  "is_CosmosResourceNotFoundError (CosmosResourceNotFoundError m) = True"
| "is_CosmosResourceNotFoundError e = False"

text \<open>
  \<^verbatim>\<open>except exceptions.CosmosHttpResponseError as cosmos_err\<close>: log and re-raise; any
  other exception passes through untouched.
\<close>

definition reraise_logged :: "string \<Rightarrow> exn \<Rightarrow> state \<Rightarrow> (exn + 'a) \<times> state" where
  "reraise_logged what cosmos_err s =
     (if is_CosmosHttpResponseError cosmos_err
      then (Inl cosmos_err, logged ''error'' (what @ str_exn cosmos_err) s)
      else (Inl cosmos_err, s))"

definition get_user_by_email :: "state \<Rightarrow> string \<Rightarrow> (exn + user_doc option) \<times> state" where
  "get_user_by_email s email_address =
     (case users_query_by_email s email_address of
        Inl cosmos_err \<Rightarrow> reraise_logged ''Email lookup failed: '' cosmos_err s
      | Inr results \<Rightarrow> (Inr (case results of [] \<Rightarrow> None | u # _ \<Rightarrow> Some u), s))"

definition create_media :: "state \<Rightarrow> media_doc \<Rightarrow> (exn + media_doc) \<times> state" where
  "create_media s media_record =
     (case media_create_item s media_record of
        (Inl cosmos_err, s1) \<Rightarrow> reraise_logged ''Media creation failed: '' cosmos_err s1
      | (Inr created, s1) \<Rightarrow> (Inr created, s1))"

definition get_media_by_id :: "state \<Rightarrow> string \<Rightarrow> string \<Rightarrow> (exn + media_doc option) \<times> state" where
  "get_media_by_id s record_id owner_id =
     (case media_read_item s record_id owner_id of
        Inl cosmos_err \<Rightarrow>
          (if is_CosmosResourceNotFoundError cosmos_err then (Inr None, s)
           else reraise_logged ''Media ID lookup failed: '' cosmos_err s)
      | Inr found \<Rightarrow> (Inr (Some found), s))"

text \<open>
  \<^verbatim>\<open>get_user_media\<close>: the filter on the owner, and on the media type when one is given
  (\<^verbatim>\<open>if media_type:\<close> is false for \<^verbatim>\<open>None\<close> and for the empty string).
\<close>

definition user_media_where :: "string \<Rightarrow> string option \<Rightarrow> media_doc \<Rightarrow> bool" where
  "user_media_where user_id media_type m =
     (userId m = user_id \<and>
      (case media_type of
         None \<Rightarrow> True
       | Some t \<Rightarrow> (if t = [] then True else mediaType m = t)))"

definition get_user_media ::
  "state \<Rightarrow> string \<Rightarrow> int \<Rightarrow> int \<Rightarrow> string option \<Rightarrow> (exn + media_doc list \<times> int) \<times> state" where
  "get_user_media s user_id page page_size media_type =
     (case query_count s (user_media_where user_id media_type) of
        Inl cosmos_err \<Rightarrow> reraise_logged ''User media retrieval failed: '' cosmos_err s
      | Inr count_results \<Rightarrow>
          (let total_records = (case count_results of [] \<Rightarrow> 0 | c # _ \<Rightarrow> c);
               skip_count = (page - 1) * page_size
           in case query_offset_limit s (user_media_where user_id media_type) skip_count page_size of
                Inl cosmos_err \<Rightarrow> reraise_logged ''User media retrieval failed: '' cosmos_err s
              | Inr records \<Rightarrow> (Inr (records, total_records), s)))"

text \<open>
  The payload of an update: the route always sets \<^verbatim>\<open>updatedAt\<close>; \<open>None\<close> in the other
  two fields is an absent key. \<^verbatim>\<open>dict.update\<close> overwrites exactly the keys present.
\<close>

record update_payload =
  payload_updatedAt :: string
  payload_description :: "string option"
  payload_tags :: "string list option"

definition dict_update :: "media_doc \<Rightarrow> update_payload \<Rightarrow> media_doc" where
  "dict_update current_record modifications =
     current_record
       \<lparr>updatedAt := payload_updatedAt modifications,
        description := (case payload_description modifications of
                          None \<Rightarrow> description current_record
                        | Some d \<Rightarrow> Some d),
        tags := (case payload_tags modifications of
                   None \<Rightarrow> tags current_record
                 | Some ts \<Rightarrow> Some (map JString ts))\<rparr>"

definition update_media ::
  "state \<Rightarrow> string \<Rightarrow> string \<Rightarrow> update_payload \<Rightarrow> (exn + media_doc) \<times> state" where
  "update_media s record_id owner_id modifications =
     (case get_media_by_id s record_id owner_id of
        (Inl cosmos_err, s1) \<Rightarrow> reraise_logged ''Media update failed: '' cosmos_err s1
      | (Inr None, s1) \<Rightarrow> (Inl (ValueError ''Media not found''), s1)
      | (Inr (Some current_record), s1) \<Rightarrow>
          (case media_replace_item s1 record_id (dict_update current_record modifications) of
             (Inl cosmos_err, s2) \<Rightarrow> reraise_logged ''Media update failed: '' cosmos_err s2
           | (Inr replaced, s2) \<Rightarrow> (Inr replaced, s2)))"

definition delete_media :: "state \<Rightarrow> string \<Rightarrow> string \<Rightarrow> (exn + bool) \<times> state" where
  "delete_media s record_id owner_id =
     (case media_delete_item s record_id owner_id of
        (Inl cosmos_err, s1) \<Rightarrow>
          (if is_CosmosResourceNotFoundError cosmos_err then (Inr False, s1)
           else reraise_logged ''Media deletion failed: '' cosmos_err s1)
      | (Inr u, s1) \<Rightarrow> (Inr True, s1))"

subsection \<open>Search\<close>









section \<open>routes_media.py: the media handlers\<close>

text \<open>
  \<^verbatim>\<open>ContentRecord(**doc)\<close>: the response model has the fields of the stored document
  under aliases, so the model answers with the document itself once pydantic's checks
  hold: a description of at most 500 characters and tags that are strings.
\<close>

fun is_JString :: "json \<Rightarrow> bool" where
  "is_JString (JString t) = True"
| "is_JString j = False"

definition ContentRecord :: "media_doc \<Rightarrow> exn + media_doc" where
  "ContentRecord d =
     (if (case description d of None \<Rightarrow> False | Some t \<Rightarrow> 500 < length t)
         \<or> (case tags d of None \<Rightarrow> False | Some ts \<Rightarrow> list_ex (\<lambda>t. \<not> is_JString t) ts)
      then Inl (ValidationError ''validation error for ContentRecord'')
      else Inr d)"

text \<open>
  An uploaded file, and what a request reads from outside the handler: the JSON parser,
  the two validators and the thumbnail generator of \<^verbatim>\<open>utils\<close> (not among the
  sources, taken as given functions), the value \<^verbatim>\<open>uuid.uuid4()\<close> returns and the
  reading of the clock.
\<close>

record UploadFile =
  filename :: string
  content_type :: string
  file_bytes :: string

record upload_env =
  json_loads :: "string \<Rightarrow> exn + json"
  validate_file_type :: "UploadFile \<Rightarrow> exn + string"
  validate_file_size :: "UploadFile \<Rightarrow> exn + int"
  generate_thumbnail :: "string \<Rightarrow> string option"
  uuid4 :: string
  utcnow :: string

text \<open>Lines 33 to 44: the tags field of the form.\<close>

definition parse_tags :: "upload_env \<Rightarrow> string option \<Rightarrow> exn + json list option" where
  "parse_tags env file_tags =
     (case file_tags of
        None \<Rightarrow> Inr None
      | Some t \<Rightarrow>
          if t = [] then Inr None
          else (case json_loads env t of
                  Inl e \<Rightarrow>
                    (case e of
                       JSONDecodeError m \<Rightarrow>
                         Inl (HTTPException 400 ''Invalid tags format. Must be a JSON array.'')
                     | _ \<Rightarrow> Inl e)
                | Inr parsed_tags \<Rightarrow>
                    (case parsed_tags of
                       JArray xs \<Rightarrow> Inr (Some xs)
                     | _ \<Rightarrow> Inl (ValueError ''Tags must be an array''))))"

text \<open>Lines 55 to 70: the thumbnail of an image, stored best-effort.\<close>

definition store_thumbnail ::
  "upload_env \<Rightarrow> state \<Rightarrow> string \<Rightarrow> UploadFile \<Rightarrow> string \<Rightarrow> string option \<times> state" where
  "store_thumbnail env s media_kind uploaded_file current_user =
     (if media_kind = ''image''
      then (case generate_thumbnail env (file_bytes uploaded_file) of
              None \<Rightarrow> (None, s)
            | Some preview_data \<Rightarrow>
                if preview_data = [] then (None, s)
                else (case upload_file s current_user (''thumb_'' @ filename uploaded_file) of
                        (Inl thumb_error, s1) \<Rightarrow>
                          (None,
                           logged ''warning''
                             (''Thumbnail creation failed: '' @ str_exn thumb_error) s1)
                      | (Inr (thumb_name, preview_url), s1) \<Rightarrow> (Some preview_url, s1)))
      else (None, s))"

definition upload_body ::
  "upload_env \<Rightarrow> state \<Rightarrow> UploadFile \<Rightarrow> string option \<Rightarrow> string option \<Rightarrow> string
     \<Rightarrow> (exn + media_doc) \<times> state" where
  "upload_body env s uploaded_file file_description file_tags current_user =
     (case validate_file_type env uploaded_file of
        Inl e \<Rightarrow> (Inl e, s)
      | Inr media_kind \<Rightarrow>
     (case validate_file_size env uploaded_file of
        Inl e \<Rightarrow> (Inl e, s)
      | Inr size_in_bytes \<Rightarrow>
     (case parse_tags env file_tags of
        Inl e \<Rightarrow> (Inl e, s)
      | Inr parsed_tags \<Rightarrow>
     (case upload_file s current_user (filename uploaded_file) of
        (Inl e, s1) \<Rightarrow> (Inl e, s1)
      | (Inr (stored_name, access_url), s1) \<Rightarrow>
     (case store_thumbnail env s1 media_kind uploaded_file current_user of
        (preview_url, s2) \<Rightarrow>
     (let record_id = uuid4 env;
          current_time = utcnow env;
          media_record =
            \<lparr>mid = record_id,
             mediaType = media_kind,
             userId = current_user,
             originalFileName = filename uploaded_file,
             fileName = stored_name,
             mimeType = content_type uploaded_file,
             fileSize = size_in_bytes,
             description = file_description,
             blobUrl = access_url,
             tags = parsed_tags,
             thumbnailUrl = preview_url,
             uploadedAt = current_time,
             updatedAt = current_time\<rparr>
      in case create_media s2 media_record of
           (Inl e, s3) \<Rightarrow> (Inl e, s3)
         | (Inr persisted_media, s3) \<Rightarrow>
             (case ContentRecord persisted_media of
                Inl e \<Rightarrow> (Inl e, s3)
              | Inr response \<Rightarrow> (Inr response, s3))))))))"

text \<open>
  The handlers end with \<^verbatim>\<open>except HTTPException: raise\<close> and
  \<^verbatim>\<open>except Exception\<close>, which logs and answers 500.
\<close>

definition process_file_upload ::
  "upload_env \<Rightarrow> state \<Rightarrow> UploadFile \<Rightarrow> string option \<Rightarrow> string option \<Rightarrow> string
     \<Rightarrow> (exn + media_doc) \<times> state" where
  "process_file_upload env s uploaded_file file_description file_tags current_user =
     (case upload_body env s uploaded_file file_description file_tags current_user of
        (Inl upload_error, s1) \<Rightarrow>
          (if is_HTTPException upload_error then (Inl upload_error, s1)
           else (Inl (HTTPException 500 (''Failed to upload media: '' @ str_exn upload_error)),
                 logged ''error'' (''File upload failed: '' @ str_exn upload_error) s1))
      | (Inr response, s1) \<Rightarrow> (Inr response, s1))"

definition fetch_body :: "state \<Rightarrow> string \<Rightarrow> string \<Rightarrow> (exn + media_doc) \<times> state" where
  "fetch_body s media_id owner_id =
     (case get_media_by_id s media_id owner_id of
        (Inl e, s1) \<Rightarrow> (Inl e, s1)
      | (Inr None, s1) \<Rightarrow> (Inl (HTTPException 404 ''Media not found''), s1)
      | (Inr (Some media_item), s1) \<Rightarrow>
          if userId media_item \<noteq> owner_id
          then (Inl (HTTPException 403 ''You don't have permission to access this media''), s1)
          else (case ContentRecord media_item of
                  Inl e \<Rightarrow> (Inl e, s1)
                | Inr response \<Rightarrow> (Inr response, s1)))"

definition fetch_media_details :: "state \<Rightarrow> string \<Rightarrow> string \<Rightarrow> (exn + media_doc) \<times> state" where
  "fetch_media_details s media_id owner_id =
     (case fetch_body s media_id owner_id of
        (Inl fetch_error, s1) \<Rightarrow>
          (if is_HTTPException fetch_error then (Inl fetch_error, s1)
           else (Inl (HTTPException 500 ''Failed to retrieve media''),
                 logged ''error'' (''Media retrieval error: '' @ str_exn fetch_error) s1))
      | (Inr response, s1) \<Rightarrow> (Inr response, s1))"

text \<open>The body of a PUT request: both fields optional, \<open>None\<close> when not sent.\<close>

record ContentModification =
  mod_tags :: "string list option"
  mod_description :: "string option"

definition modify_body ::
  "state \<Rightarrow> string \<Rightarrow> ContentModification \<Rightarrow> string \<Rightarrow> string \<Rightarrow> (exn + media_doc) \<times> state" where
  "modify_body s media_id metadata_updates now owner_id =
     (case get_media_by_id s media_id owner_id of
        (Inl e, s1) \<Rightarrow> (Inl e, s1)
      | (Inr None, s1) \<Rightarrow> (Inl (HTTPException 404 ''Media not found''), s1)
      | (Inr (Some existing_media), s1) \<Rightarrow>
          if userId existing_media \<noteq> owner_id
          then (Inl (HTTPException 403 ''You don't have permission to update this media''), s1)
          else
            (let update_payload =
                   \<lparr>payload_updatedAt = now,
                    payload_description = mod_description metadata_updates,
                    payload_tags = mod_tags metadata_updates\<rparr>
             in case update_media s1 media_id owner_id update_payload of
                  (Inl e, s2) \<Rightarrow> (Inl e, s2)
                | (Inr modified_media, s2) \<Rightarrow>
                    (case ContentRecord modified_media of
                       Inl e \<Rightarrow> (Inl e, s2)
                     | Inr response \<Rightarrow> (Inr response, s2))))"

definition modify_media_info ::
  "state \<Rightarrow> string \<Rightarrow> ContentModification \<Rightarrow> string \<Rightarrow> string \<Rightarrow> (exn + media_doc) \<times> state" where
  "modify_media_info s media_id metadata_updates now owner_id =
     (case modify_body s media_id metadata_updates now owner_id of
        (Inl update_error, s1) \<Rightarrow>
          (if is_HTTPException update_error then (Inl update_error, s1)
           else if is_ValueError update_error
           then (Inl (HTTPException 404 (str_exn update_error)), s1)
           else (Inl (HTTPException 500 ''Failed to update media''),
                 logged ''error'' (''Media update failed: '' @ str_exn update_error) s1))
      | (Inr response, s1) \<Rightarrow> (Inr response, s1))"

text \<open>
  Python's \<^verbatim>\<open>s.split("/")[-1]\<close> and \<^verbatim>\<open>s.replace(old, new)\<close>, which replaces every
  occurrence from the left (and, for an empty \<open>old\<close>, inserts \<open>new\<close> around every
  character).
\<close>

definition last_component :: "string \<Rightarrow> string" where
  "last_component path = rev (takeWhile (\<lambda>c. c \<noteq> CHR ''/'') (rev path))"

fun str_replace :: "string \<Rightarrow> string \<Rightarrow> string \<Rightarrow> string" where
  "str_replace [] old new = (if old = [] then new else [])"
| "str_replace (c # cs) old new =
     (if old = [] then new @ c # str_replace cs old new
      else if prefix old (c # cs)
      then new @ str_replace (drop (length old) (c # cs)) old new
      else c # str_replace cs old new)"

text \<open>Lines 270 to 281: the thumbnail key is recomputed and its blob deleted best-effort.\<close>

definition thumb_identifier :: "media_doc \<Rightarrow> string" where
  "thumb_identifier media_record =
     (let original_filename = last_component (originalFileName media_record)
      in str_replace (fileName media_record) original_filename (''thumb_'' @ original_filename))"

definition remove_thumbnail :: "state \<Rightarrow> media_doc \<Rightarrow> state" where
  "remove_thumbnail s media_record =
     (case thumbnailUrl media_record of
        None \<Rightarrow> s
      | Some url \<Rightarrow>
          if url = [] then s
          else (case delete_file s (thumb_identifier media_record) of
                  (Inl thumb_delete_error, s1) \<Rightarrow>
                    logged ''warning''
                      (''Thumbnail deletion failed: '' @ str_exn thumb_delete_error) s1
                | (Inr u, s1) \<Rightarrow> s1))"

definition remove_body :: "state \<Rightarrow> string \<Rightarrow> string \<Rightarrow> (exn + unit) \<times> state" where
  "remove_body s media_id owner_id =
     (case get_media_by_id s media_id owner_id of
        (Inl e, s1) \<Rightarrow> (Inl e, s1)
      | (Inr None, s1) \<Rightarrow> (Inl (HTTPException 404 ''Media not found''), s1)
      | (Inr (Some media_record), s1) \<Rightarrow>
          if userId media_record \<noteq> owner_id
          then (Inl (HTTPException 403 ''You don't have permission to delete this media''), s1)
          else (case delete_file s1 (fileName media_record) of
                  (Inl e, s2) \<Rightarrow> (Inl e, s2)
                | (Inr u, s2) \<Rightarrow>
                    (case delete_media (remove_thumbnail s2 media_record) media_id owner_id of
                       (Inl e, s3) \<Rightarrow> (Inl e, s3)
                     | (Inr deleted, s3) \<Rightarrow> (Inr (), s3))))"

definition remove_media_file :: "state \<Rightarrow> string \<Rightarrow> string \<Rightarrow> (exn + unit) \<times> state" where
  "remove_media_file s media_id owner_id =
     (case remove_body s media_id owner_id of
        (Inl deletion_error, s1) \<Rightarrow>
          (if is_HTTPException deletion_error then (Inl deletion_error, s1)
           else (Inl (HTTPException 500 ''Failed to delete media''),
                 logged ''error'' (''Media deletion error: '' @ str_exn deletion_error) s1))
      | (Inr u, s1) \<Rightarrow> (Inr (), s1))"

section \<open>routes_auth.py: login\<close>

text \<open>
  The response model of a successful login. \<^verbatim>\<open>verify_password\<close> and
  \<^verbatim>\<open>create_access_token\<close> belong to the authentication capability and are parameters.
\<close>

record AccountProfile =
  profile_email :: string
  profile_createdAt :: string
  profile_id :: string
  profile_username :: string

record AuthenticationToken =
  user :: AccountProfile
  token :: string

record CredentialsInput =
  password :: string
  cred_email :: string

definition authenticate_user ::
  "(string \<Rightarrow> string \<Rightarrow> bool) \<Rightarrow> (string \<Rightarrow> string \<Rightarrow> string) \<Rightarrow> state \<Rightarrow> CredentialsInput
     \<Rightarrow> (exn + AuthenticationToken) \<times> state" where
  "authenticate_user verify_password create_access_token s credentials =
     (let s1 = logged ''info'' (''Authentication request: '' @ cred_email credentials) s in
      case get_user_by_email s1 (cred_email credentials) of
        (Inl login_error, s2) \<Rightarrow>
          (if is_HTTPException login_error then (Inl login_error, s2)
           else (Inl (HTTPException 500 (''Failed to login: '' @ str_exn login_error)),
                 logged ''error'' (''Authentication error: '' @ str_exn login_error) s2))
      | (Inr None, s2) \<Rightarrow>
          (Inl (HTTPException 401 ''Invalid email or password''),
           logged ''warning'' (''Account not found: '' @ cred_email credentials) s2)
      | (Inr (Some account), s2) \<Rightarrow>
          (if \<not> verify_password (password credentials) (hashed_password account)
           then (Inl (HTTPException 401 ''Invalid email or password''),
                 logged ''warning'' (''Invalid credentials for: '' @ cred_email credentials) s2)
           else
             (Inr \<lparr>user = \<lparr>profile_email = email account,
                            profile_createdAt = created_at account,
                            profile_id = uid account,
                            profile_username = username account\<rparr>,
                    token = create_access_token (email account) (uid account)\<rparr>,
              logged ''info'' (''Authentication successful: '' @ email account) s2)))"

section \<open>Runs of requests\<close>

text \<open>
  The requests that change media records, each with what it reads from outside: an upload
  with its environment (which holds the generated id and the clock reading), an update
  with the clock reading, a delete. A run applies the handlers one after the other to the
  shared state.
\<close>

datatype request =
    Upload upload_env UploadFile "string option" "string option" string
  | Update string ContentModification string string
  | Delete string string

fun step :: "state \<Rightarrow> request \<Rightarrow> state" where
  "step s (Upload env uploaded_file file_description file_tags current_user) =
     snd (process_file_upload env s uploaded_file file_description file_tags current_user)"
| "step s (Update media_id metadata_updates now owner_id) =
     snd (modify_media_info s media_id metadata_updates now owner_id)"
| "step s (Delete media_id owner_id) = snd (remove_media_file s media_id owner_id)"

definition run :: "state \<Rightarrow> request list \<Rightarrow> state" where
  "run s requests = foldl step s requests"

text \<open>
  The records returned by the successful uploads of a run, the value the id generator
  has for each upload (whether or not the upload gets as far as asking for it), and the
  clock readings of the uploads and updates, in the order of the run.
\<close>

fun created :: "state \<Rightarrow> request list \<Rightarrow> media_doc list" where
  "created s [] = []"
| "created s (Upload env uploaded_file file_description file_tags current_user # rest) =
     (case fst (process_file_upload env s uploaded_file file_description file_tags current_user) of
        Inl e \<Rightarrow> []
      | Inr r \<Rightarrow> [r])
     @ created (step s (Upload env uploaded_file file_description file_tags current_user)) rest"
| "created s (q # rest) = created (step s q) rest"






section \<open>Notions used in the statements\<close>

text \<open>The items of a page, read off a result (none when the call failed).\<close>

definition page_items :: "(exn + media_doc list \<times> int) \<times> state \<Rightarrow> media_doc list" where
  "page_items result = (case fst result of Inl e \<Rightarrow> [] | Inr (items, n) \<Rightarrow> items)"


fun is_JArray :: "json \<Rightarrow> bool" where
  "is_JArray (JArray xs) = True"
| "is_JArray j = False"

section \<open>Sample data\<close>

text \<open>Concrete states and requests on which the theorems below are instantiated.\<close>

definition sample_verify :: "string \<Rightarrow> string \<Rightarrow> bool" where
  "sample_verify plain hashed = (hashed = ''hash:'' @ plain)"

definition sample_token :: "string \<Rightarrow> string \<Rightarrow> string" where
  "sample_token mail sub = ''token:'' @ sub"

definition sample_users :: state where
  "sample_users =
     \<lparr>media_container = [],
      users_container =
        [\<lparr>uid = ''u1'', email = ''alice@example.com'', username = ''alice'',
          hashed_password = ''hash:secret'', created_at = ''2024-01-01T09:00:00''\<rparr>],
      blobs = [], blob_faults = [], cosmos_down = False, log = []\<rparr>"

definition sample_doc ::
  "string \<Rightarrow> string \<Rightarrow> string \<Rightarrow> string \<Rightarrow> json list option \<Rightarrow> string \<Rightarrow> media_doc" where
  "sample_doc i owner kind name ts at =
     \<lparr>mid = i, mediaType = kind, userId = owner, originalFileName = name,
      fileName = blob_name owner name, mimeType = ''application/octet-stream'',
      fileSize = 1024, description = None, blobUrl = blob_url (blob_name owner name),
      tags = ts, thumbnailUrl = None, uploadedAt = at, updatedAt = at\<rparr>"

definition sample_library :: state where
  "sample_library =
     \<lparr>media_container =
        [sample_doc ''m1'' ''alice'' ''image'' ''Beach.JPG'' (Some [JString ''Sunset''])
           ''2024-01-01T10:00:00'',
         sample_doc ''m2'' ''alice'' ''video'' ''clip.mp4'' None ''2024-01-02T10:00:00'',
         sample_doc ''m3'' ''alice'' ''image'' ''tree.png'' (Some []) ''2024-01-03T10:00:00'',
         sample_doc ''m4'' ''bob'' ''image'' ''beach.jpg'' None ''2024-01-02T12:00:00''],
      users_container = [],
      blobs = [''alice/Beach.JPG'', ''alice/clip.mp4'', ''alice/tree.png'', ''bob/beach.jpg''],
      blob_faults = [], cosmos_down = False, log = []\<rparr>"

definition sample_patch :: ContentModification where
  "sample_patch = \<lparr>mod_tags = Some [''beach''], mod_description = None\<rparr>"

definition sample_faulty :: state where
  "sample_faulty = sample_library\<lparr>blob_faults := [''alice/Beach.JPG'']\<rparr>"

definition sample_thumb_doc :: media_doc where
  "sample_thumb_doc =
     (sample_doc ''m7'' ''alice'' ''image'' ''pier.jpg'' None ''2024-01-05T10:00:00'')
       \<lparr>thumbnailUrl := Some (blob_url ''alice/thumb_pier.jpg'')\<rparr>"

definition sample_thumb_faulty :: state where
  "sample_thumb_faulty =
     \<lparr>media_container = [sample_thumb_doc],
      users_container = [],
      blobs = [''alice/pier.jpg'', ''alice/thumb_pier.jpg''],
      blob_faults = [''alice/thumb_pier.jpg''], cosmos_down = False, log = []\<rparr>"

text \<open>
  A stand-in for \<^verbatim>\<open>json.loads\<close> in the examples: it has the parser's value on the
  strings listed, and every other string stands for malformed input.
\<close>

definition sample_json_loads :: "string \<Rightarrow> exn + json" where
  "sample_json_loads t =
     (if t = ''[]'' then Inr (JArray [])
      else if t = ''{}'' then Inr (JObject [])
      else if t = ''42'' then Inr (JNumber 42)
      else if t = ''null'' then Inr JNull
      else Inl (JSONDecodeError ''Expecting value: line 1 column 1 (char 0)''))"

definition sample_env :: upload_env where
  "sample_env =
     \<lparr>json_loads = sample_json_loads,
      validate_file_type =
        (\<lambda>f. if content_type f = ''image/jpeg'' then Inr ''image''
             else if content_type f = ''video/mp4'' then Inr ''video''
             else Inl (HTTPException 400 ''Unsupported file type'')),
      validate_file_size = (\<lambda>f. Inr (int (length (file_bytes f)))),
      generate_thumbnail = (\<lambda>b. Some ''preview''),
      uuid4 = ''id-1'',
      utcnow = ''2024-03-01T09:00:00''\<rparr>"

definition sample_photo :: UploadFile where
  "sample_photo =
     \<lparr>filename = ''photo.jpg'', content_type = ''image/jpeg'', file_bytes = ''JPEGDATA''\<rparr>"

definition sample_nested :: UploadFile where
  "sample_nested =
     \<lparr>filename = ''trip/pier.jpg'', content_type = ''image/jpeg'', file_bytes = ''JPEGDATA''\<rparr>"

definition sample_after_upload :: "UploadFile \<Rightarrow> state" where
  "sample_after_upload f = snd (process_file_upload sample_env sample_users f None None ''u1'')"

text \<open>A sample run: a first upload, then the upload under study, then an update and a delete.\<close>

definition sample_env2 :: upload_env where
  "sample_env2 = sample_env\<lparr>uuid4 := ''id-2'', utcnow := ''2024-03-02T09:00:00''\<rparr>"

definition sample_past :: "request list" where
  "sample_past = [Upload sample_env sample_photo None None ''u1'']"

definition sample_later :: "request list" where
  "sample_later =
     [Update ''id-2'' sample_patch ''2024-03-03T09:00:00'' ''u1'', Delete ''id-1'' ''u1'']"



section \<open>Basic facts\<close>

lemma get_user_by_email_up:
  "\<not> cosmos_down s \<Longrightarrow>
   get_user_by_email s e =
     (Inr (case filter (\<lambda>u. email u = e) (users_container s) of
             [] \<Rightarrow> None | u # _ \<Rightarrow> Some u), s)"
  by (simp add: get_user_by_email_def users_query_by_email_def)

lemma logged_fields [simp]:
  "users_container (logged l m s) = users_container s"
  "media_container (logged l m s) = media_container s"
  "blobs (logged l m s) = blobs s"
  "blob_faults (logged l m s) = blob_faults s"
  "cosmos_down (logged l m s) = cosmos_down s"
  "log (logged l m s) = log s @ [(l, m)]"
  by (simp_all add: logged_def)

lemma length_select_ordered:
  "length (select_ordered s w) = length (filter w (media_container s))"
  by (simp add: select_ordered_def order_by_uploadedAt_desc_def)

lemma mset_select_ordered:
  "mset (select_ordered s w) = mset (filter w (media_container s))"
  by (simp add: select_ordered_def order_by_uploadedAt_desc_def)

lemma select_ordered_descending:
  "sorted (rev (map uploadedAt (select_ordered s w)))"
  by (simp add: select_ordered_def order_by_uploadedAt_desc_def rev_map [symmetric])

lemma concat_windows:
  "concat (map (\<lambda>i. take n (drop (i * n) xs)) [0..<k]) = take (k * n) xs"
proof (induction k)
  case 0
  show ?case by simp
next
  case (Suc k)
  have "take (k * n) xs @ take n (drop (k * n) xs) = take (k * n + n) xs"
    by (simp add: take_add)
  with Suc show ?case by (simp add: add.commute)
qed

lemma pages_cover:
  assumes "0 < n"
  shows "concat (map (\<lambda>p. take n (drop ((p - 1) * n) xs)) [1..<Suc ((length xs + n - 1) div n)]) = xs"
proof -
  let ?k = "(length xs + n - 1) div n"
  have "map (\<lambda>p. take n (drop ((p - 1) * n) xs)) [1..<Suc ?k]
          = map (\<lambda>i. take n (drop (i * n) xs)) [0..<?k]"
    by (simp add: map_Suc_upt [symmetric] del: upt_Suc)
  moreover have "length xs \<le> ?k * n"
  proof -
    have "length xs + n - 1 < (Suc ?k) * n"
      using assms by (metis dividend_less_div_times mult.commute mult_Suc)
    then show ?thesis using assms by simp
  qed
  ultimately show ?thesis by (simp add: concat_windows)
qed

lemma get_user_media_up:
  assumes "\<not> cosmos_down s" "0 \<le> (page - 1) * page_size" "0 \<le> page_size"
  shows "get_user_media s user_id page page_size media_type =
           (Inr (take (nat page_size) (drop (nat ((page - 1) * page_size))
                   (select_ordered s (user_media_where user_id media_type))),
                 int (length (select_ordered s (user_media_where user_id media_type)))), s)"
  using assms by (simp add: get_user_media_def query_count_def query_offset_limit_def Let_def)


lemma get_media_by_id_up:
  "\<not> cosmos_down s \<Longrightarrow>
   get_media_by_id s record_id owner_id =
     (Inr (find (\<lambda>d. mid d = record_id \<and> userId d = owner_id) (media_container s)), s)"
  by (simp add: get_media_by_id_def media_read_item_def split: option.splits)

lemma get_media_by_id_owner:
  "get_media_by_id s record_id owner_id = (Inr (Some d), s1) \<Longrightarrow>
   userId d = owner_id \<and> mid d = record_id \<and> d \<in> set (media_container s) \<and> s1 = s"
  by (auto simp: get_media_by_id_def media_read_item_def reraise_logged_def find_Some_iff
      split: option.splits if_splits)

section \<open>Listing: pages are windows of the ordered result\<close>

text \<open>
  In terms of the query: every page is a window of the ordered selection, the total is the
  number of selected documents, and the pages put one after the other are the selection.
\<close>

lemma get_user_media_windows_of_query:
  assumes up: "\<not> cosmos_down s"
    and page: "1 \<le> page"
    and size: "1 \<le> page_size" "page_size \<le> 100"
  shows "get_user_media s user_id page page_size media_type =
           (Inr (take (nat page_size) (drop (nat ((page - 1) * page_size))
                   (select_ordered s (user_media_where user_id media_type))),
                 int (length (filter (user_media_where user_id media_type) (media_container s)))),
            s)
       \<and> mset (select_ordered s (user_media_where user_id media_type))
           = mset (filter (user_media_where user_id media_type) (media_container s))
       \<and> sorted (rev (map uploadedAt (select_ordered s (user_media_where user_id media_type))))
       \<and> concat (map (\<lambda>p. page_items (get_user_media s user_id (int p) page_size media_type))
                   [1..<Suc ((length (filter (user_media_where user_id media_type)
                                       (media_container s)) + nat page_size - 1)
                              div nat page_size)])
           = select_ordered s (user_media_where user_id media_type)"
proof -
  let ?L = "select_ordered s (user_media_where user_id media_type)"
  let ?n = "nat page_size"
  have skip: "0 \<le> (page - 1) * page_size" using page size by simp
  have first: "get_user_media s user_id page page_size media_type =
           (Inr (take ?n (drop (nat ((page - 1) * page_size)) ?L),
                 int (length (filter (user_media_where user_id media_type) (media_container s)))),
            s)"
    using get_user_media_up [OF up skip, of user_id media_type] size
    by (simp add: length_select_ordered)
  have each: "page_items (get_user_media s user_id (int p) page_size media_type)
                = take ?n (drop ((p - 1) * ?n) ?L)" if "1 \<le> p" for p
  proof -
    have "0 \<le> (int p - 1) * page_size" using that size by simp
    moreover have "nat ((int p - 1) * page_size) = (p - 1) * ?n"
      using that size by (simp add: nat_mult_distrib of_nat_diff)
    ultimately show ?thesis
      using get_user_media_up [OF up, of "int p" page_size user_id media_type] size
      by (simp add: page_items_def)
  qed
  have "map (\<lambda>p. page_items (get_user_media s user_id (int p) page_size media_type))
          [1..<Suc ((length ?L + ?n - 1) div ?n)]
      = map (\<lambda>p. take ?n (drop ((p - 1) * ?n) ?L)) [1..<Suc ((length ?L + ?n - 1) div ?n)]"
  proof (rule map_cong)
    fix p assume "p \<in> set [1..<Suc ((length ?L + ?n - 1) div ?n)]"
    then have "1 \<le> p" by (simp del: upt_Suc)
    then show "page_items (get_user_media s user_id (int p) page_size media_type)
                 = take ?n (drop ((p - 1) * ?n) ?L)" by (rule each)
  qed simp
  moreover have "0 < ?n" using size by simp
  ultimately have cover: "concat (map (\<lambda>p. page_items (get_user_media s user_id (int p) page_size media_type))
          [1..<Suc ((length ?L + ?n - 1) div ?n)]) = ?L"
    by (simp only: pages_cover)
  show ?thesis
    using first cover mset_select_ordered [of s] select_ordered_descending [of s]
    by (simp only: length_select_ordered simp_thms)
qed

lemma user_media_where_typed:
  assumes "media_type \<noteq> Some []"
  shows "user_media_where user_id media_type
           = (\<lambda>r. userId r = user_id
                    \<and> (case media_type of None \<Rightarrow> True | Some t \<Rightarrow> mediaType r = t))"
  using assms by (auto simp: user_media_where_def fun_eq_iff split: option.splits)

text \<open>
  C4. With the store reachable, a page size between 1 and 100 and a type filter that is
  absent or a media type (the route admits \<open>image\<close> and \<open>video\<close>; the empty string
  would be read as no filter), there is one ordered list of exactly the owner's documents
  of the requested type, descending in \<open>uploadedAt\<close>, such that for every page number
  of at least 1 \<open>get_user_media\<close> returns the window of \<open>page_size\<close> items at offset
  \<open>(page - 1) * page_size\<close> of that list together with the number of all those
  documents, whatever the page; and the windows of the pages 1 to \<open>ceil (N / page_size)\<close>,
  put one after the other, are that list: no gap and no overlap.
\<close>

theorem get_user_media_windows:
  assumes up: "\<not> cosmos_down s"
    and size: "1 \<le> page_size" "page_size \<le> 100"
    and typed: "media_type \<noteq> Some []"
  shows "\<exists>ordered.
           mset ordered
             = mset (filter (\<lambda>r. userId r = user_id
                                  \<and> (case media_type of
                                        None \<Rightarrow> True
                                      | Some t \<Rightarrow> mediaType r = t))
                       (media_container s))
         \<and> sorted (rev (map uploadedAt ordered))
         \<and> (\<forall>page. 1 \<le> page \<longrightarrow>
               get_user_media s user_id page page_size media_type
                 = (Inr (take (nat page_size) (drop (nat ((page - 1) * page_size)) ordered),
                         int (length (filter (\<lambda>r. userId r = user_id
                                                     \<and> (case media_type of
                                                           None \<Rightarrow> True
                                                         | Some t \<Rightarrow> mediaType r = t))
                                        (media_container s)))),
                    s))
         \<and> concat (map (\<lambda>p. page_items (get_user_media s user_id (int p) page_size media_type))
                     [1..<Suc ((length ordered + nat page_size - 1) div nat page_size)])
             = ordered"
proof -
  let ?w = "user_media_where user_id media_type"
  let ?L = "select_ordered s ?w"
  note w = user_media_where_typed [OF typed, of user_id]
  have m: "mset ?L = mset (filter ?w (media_container s))"
    and srt: "sorted (rev (map uploadedAt ?L))"
    and cover: "concat (map (\<lambda>p. page_items (get_user_media s user_id (int p) page_size media_type))
                   [1..<Suc ((length ?L + nat page_size - 1) div nat page_size)]) = ?L"
    using get_user_media_windows_of_query [OF up order_refl size, of user_id media_type]
    by (simp_all add: length_select_ordered)
  have pages: "get_user_media s user_id page page_size media_type
                 = (Inr (take (nat page_size) (drop (nat ((page - 1) * page_size)) ?L),
                         int (length (filter ?w (media_container s)))), s)"
    if "1 \<le> page" for page
    using get_user_media_windows_of_query [OF up that size, of user_id media_type] by simp
  show ?thesis
    apply (rule exI [of _ ?L])
    using m srt cover pages unfolding w by blast
qed

theorem get_user_media_windows_witness:
  "(\<exists>ordered.
      mset ordered
        = mset (filter (\<lambda>r. userId r = ''alice''
                             \<and> (case Some ''image'' of None \<Rightarrow> True | Some t \<Rightarrow> mediaType r = t))
                  (media_container sample_library))
    \<and> sorted (rev (map uploadedAt ordered))
    \<and> (\<forall>page. 1 \<le> page \<longrightarrow>
          get_user_media sample_library ''alice'' page 1 (Some ''image'')
            = (Inr (take (nat 1) (drop (nat ((page - 1) * 1)) ordered),
                    int (length (filter (\<lambda>r. userId r = ''alice''
                                                \<and> (case Some ''image'' of
                                                      None \<Rightarrow> True
                                                    | Some t \<Rightarrow> mediaType r = t))
                                   (media_container sample_library)))),
               sample_library))
    \<and> concat (map (\<lambda>p. page_items (get_user_media sample_library ''alice'' (int p) 1
                                      (Some ''image'')))
                [1..<Suc ((length ordered + nat 1 - 1) div nat 1)])
        = ordered)
   \<and> map mid (page_items (get_user_media sample_library ''alice'' 1 1 (Some ''image''))) = [''m3'']
   \<and> map mid (page_items (get_user_media sample_library ''alice'' 2 1 (Some ''image''))) = [''m1'']
   \<and> map mid (page_items (get_user_media sample_library ''alice'' 1 2 None)) = [''m3'', ''m2'']
   \<and> map mid (page_items (get_user_media sample_library ''alice'' 2 2 None)) = [''m1'']
   \<and> fst (get_user_media sample_library ''alice'' 3 1 (Some ''image'')) = Inr ([], 2)"
proof -
  have up: "\<not> cosmos_down sample_library" by (simp add: sample_library_def)
  have a: "map mid (page_items (get_user_media sample_library ''alice'' 1 1 (Some ''image''))) = [''m3'']
   \<and> map mid (page_items (get_user_media sample_library ''alice'' 2 1 (Some ''image''))) = [''m1'']
   \<and> map mid (page_items (get_user_media sample_library ''alice'' 1 2 None)) = [''m3'', ''m2'']
   \<and> map mid (page_items (get_user_media sample_library ''alice'' 2 2 None)) = [''m1'']
   \<and> fst (get_user_media sample_library ''alice'' 3 1 (Some ''image'')) = Inr ([], 2)"
    by code_simp
  from get_user_media_windows [OF up, of 1 "Some ''image''" "''alice''"] a
  show ?thesis by simp
qed

section \<open>A page beyond the end\<close>



section \<open>Login does not reveal whether an account exists\<close>

text \<open>
  C9. With the store reachable, a login whose email matches no account and a login whose
  email matches an account but whose password does not verify get the same response:
  status 401 with the detail \<open>Invalid email or password\<close>.
\<close>

theorem login_failures_indistinguishable:
  assumes up: "\<not> cosmos_down s"
    and unknown: "\<forall>u \<in> set (users_container s). email u \<noteq> cred_email c1"
    and known: "account \<in> set (users_container s)" "email account = cred_email c2"
    and wrong: "\<forall>u \<in> set (users_container s).
                  email u = cred_email c2 \<longrightarrow> \<not> verify_password (password c2) (hashed_password u)"
  shows "fst (authenticate_user verify_password create_access_token s c1)
           = Inl (HTTPException 401 ''Invalid email or password'')
       \<and> fst (authenticate_user verify_password create_access_token s c2)
           = fst (authenticate_user verify_password create_access_token s c1)"
proof -
  have none: "filter (\<lambda>u. email u = cred_email c1) (users_container s) = []"
    using unknown by (simp add: filter_empty_conv)
  have r1: "fst (authenticate_user verify_password create_access_token s c1)
              = Inl (HTTPException 401 ''Invalid email or password'')"
    using none up by (simp add: authenticate_user_def Let_def get_user_by_email_up)
  obtain a rest where some: "filter (\<lambda>u. email u = cred_email c2) (users_container s) = a # rest"
    using known by (cases "filter (\<lambda>u. email u = cred_email c2) (users_container s)")
      (auto simp: filter_empty_conv)
  then have "a \<in> set (filter (\<lambda>u. email u = cred_email c2) (users_container s))" by simp
  then have "\<not> verify_password (password c2) (hashed_password a)" using wrong by simp
  then have r2: "fst (authenticate_user verify_password create_access_token s c2)
              = Inl (HTTPException 401 ''Invalid email or password'')"
    using some up by (simp add: authenticate_user_def Let_def get_user_by_email_up)
  show ?thesis using r1 r2 by simp
qed

theorem login_failures_indistinguishable_witness:
  "fst (authenticate_user sample_verify sample_token sample_users
          \<lparr>password = ''guess'', cred_email = ''nobody@example.com''\<rparr>)
     = Inl (HTTPException 401 ''Invalid email or password'')
   \<and> fst (authenticate_user sample_verify sample_token sample_users
            \<lparr>password = ''wrong'', cred_email = ''alice@example.com''\<rparr>)
       = fst (authenticate_user sample_verify sample_token sample_users
                \<lparr>password = ''guess'', cred_email = ''nobody@example.com''\<rparr>)"
  using login_failures_indistinguishable
    [where s = sample_users
       and ?c1.0 = "\<lparr>password = ''guess'', cred_email = ''nobody@example.com''\<rparr>"
       and ?c2.0 = "\<lparr>password = ''wrong'', cred_email = ''alice@example.com''\<rparr>"
       and account = "hd (users_container sample_users)"
       and verify_password = sample_verify
       and create_access_token = sample_token]
  by (simp add: sample_users_def sample_verify_def)

section \<open>Search\<close>







section \<open>Access to another owner's record\<close>

lemma other_partition_empty:
  assumes "r \<in> set (media_container s)" "userId r = a" "b \<noteq> a"
    and "distinct (map mid (media_container s))"
  shows "find (\<lambda>d. mid d = mid r \<and> userId d = b) (media_container s) = None"
proof -
  have "inj_on mid (set (media_container s))" using assms(4) by (simp add: distinct_map)
  then have "d = r" if "d \<in> set (media_container s)" "mid d = mid r" for d
    using that assms(1) by (auto dest: inj_onD)
  then show ?thesis using assms(2,3) by (auto simp: find_None_iff)
qed

text \<open>
  What the handlers do. The lookup of every handler reads the caller's own partition. In a
  reachable store whose ids are pairwise distinct, get, update and delete on the id of a
  record owned by \<open>a\<close>, called with the identity \<open>b \<noteq> a\<close>, all answer 404
  \<open>Media not found\<close> and leave the state as it was.
\<close>

lemma other_owner_gets_not_found:
  assumes up: "\<not> cosmos_down s"
    and rec: "r \<in> set (media_container s)" "userId r = a"
    and other: "b \<noteq> a"
    and ids: "distinct (map mid (media_container s))"
  shows "fetch_media_details s (mid r) b = (Inl (HTTPException 404 ''Media not found''), s)
       \<and> modify_media_info s (mid r) metadata_updates now b
           = (Inl (HTTPException 404 ''Media not found''), s)
       \<and> remove_media_file s (mid r) b = (Inl (HTTPException 404 ''Media not found''), s)"
proof -
  have none: "get_media_by_id s (mid r) b = (Inr None, s)"
    using other_partition_empty [OF rec other ids] by (simp add: get_media_by_id_up [OF up])
  have "fetch_media_details s (mid r) b = (Inl (HTTPException 404 ''Media not found''), s)"
    by (simp add: fetch_media_details_def fetch_body_def none)
  moreover have "modify_media_info s (mid r) metadata_updates now b
                   = (Inl (HTTPException 404 ''Media not found''), s)"
    by (simp add: modify_media_info_def modify_body_def none)
  moreover have "remove_media_file s (mid r) b = (Inl (HTTPException 404 ''Media not found''), s)"
    by (simp add: remove_media_file_def remove_body_def none)
  ultimately show ?thesis by simp
qed

lemma other_owner_gets_not_found_sample:
  "fetch_media_details sample_library ''m1'' ''bob''
     = (Inl (HTTPException 404 ''Media not found''), sample_library)
   \<and> modify_media_info sample_library ''m1''
        \<lparr>mod_tags = None, mod_description = Some ''mine now''\<rparr> ''2024-02-01T08:00:00'' ''bob''
       = (Inl (HTTPException 404 ''Media not found''), sample_library)
   \<and> remove_media_file sample_library ''m1'' ''bob''
       = (Inl (HTTPException 404 ''Media not found''), sample_library)"
  using other_owner_gets_not_found
    [where s = sample_library and r = "hd (media_container sample_library)" and a = "''alice''"
       and b = "''bob''"
       and metadata_updates = "\<lparr>mod_tags = None, mod_description = Some ''mine now''\<rparr>"
       and now = "''2024-02-01T08:00:00''"]
  by (simp add: sample_library_def sample_doc_def)

text \<open>
  C1 at a concrete input: the sample document \<open>m1\<close> is owned by \<open>alice\<close>, and
  \<open>bob\<close> fetches, updates and deletes it. Each handler has an ownership comparison that
  answers 403, but the lookup before it has already found nothing in the partition of
  \<open>bob\<close>: all three answer 404 \<open>Media not found\<close>, not 403.
\<close>

theorem other_owner_not_forbidden:
  "map (\<lambda>d. (mid d, userId d)) (media_container sample_library)
     = [(''m1'', ''alice''), (''m2'', ''alice''), (''m3'', ''alice''), (''m4'', ''bob'')]
   \<and> fst (fetch_media_details sample_library ''m1'' ''bob'')
       = Inl (HTTPException 404 ''Media not found'')
   \<and> fst (modify_media_info sample_library ''m1'' sample_patch ''2024-02-01T08:00:00'' ''bob'')
       = Inl (HTTPException 404 ''Media not found'')
   \<and> fst (remove_media_file sample_library ''m1'' ''bob'')
       = Inl (HTTPException 404 ''Media not found'')"
  by code_simp

text \<open>
  The ownership comparison of \<open>fetch_media_details\<close> can never fail, whatever the state:
  a record that the lookup returns is in the caller's partition, so the answer 403 that the
  handler is written to give is out of reach.
\<close>

lemma forbidden_unreachable:
  "fst (fetch_media_details s media_id owner_id) \<noteq> Inl (HTTPException 403 detail)"
proof (cases "get_media_by_id s media_id owner_id")
  case (Pair res s1)
  show ?thesis
  proof (cases res)
    case (Inl e)
    with Pair show ?thesis
      by (simp add: fetch_media_details_def fetch_body_def)
        (auto simp: get_media_by_id_def reraise_logged_def media_read_item_def unavailable_def
          split: option.splits if_splits)
  next
    case (Inr found)
    show ?thesis
    proof (cases found)
      case None
      with Pair Inr show ?thesis by (simp add: fetch_media_details_def fetch_body_def)
    next
      case (Some d)
      with Pair Inr have "userId d = owner_id" by (auto dest: get_media_by_id_owner)
      with Pair Inr Some show ?thesis
        by (simp add: fetch_media_details_def fetch_body_def ContentRecord_def)
    qed
  qed
qed

section \<open>An update touches only the description, the tags and the update time\<close>

lemma update_media_ok:
  assumes "update_media s record_id owner_id modifications = (Inr d', s')"
  shows "\<exists>old. find (\<lambda>d. mid d = record_id \<and> userId d = owner_id) (media_container s) = Some old
           \<and> d' = dict_update old modifications
           \<and> s' = s\<lparr>media_container :=
                     map (\<lambda>d. if mid d = record_id \<and> userId d = owner_id then d' else d)
                       (media_container s)\<rparr>"
proof -
  have up: "\<not> cosmos_down s"
    using assms
    by (auto simp: update_media_def get_media_by_id_def media_read_item_def reraise_logged_def
        unavailable_def)
  show ?thesis
  proof (cases "find (\<lambda>d. mid d = record_id \<and> userId d = owner_id) (media_container s)")
    case None
    with assms up show ?thesis
      by (simp add: update_media_def get_media_by_id_up)
  next
    case (Some old)
    then have key: "mid old = record_id" "userId old = owner_id"
      by (auto simp: find_Some_iff)
    then have key': "mid (dict_update old modifications) = record_id"
      "userId (dict_update old modifications) = owner_id"
      by (simp_all add: dict_update_def)
    from assms up Some key' show ?thesis
      by (auto simp: update_media_def get_media_by_id_up media_replace_item_def
          reraise_logged_def split: if_splits)
  qed
qed

text \<open>
  C6. When \<open>modify_media_info\<close> succeeds, the record stored under the id in the caller's
  partition is the returned one; it agrees with the record stored before on the id, media
  type, file size, owner, original file name, stored file name, blob URL, thumbnail URL,
  MIME type and upload time; its update time is the clock reading; its description and
  tags are those of the patch where the patch gives them and the old ones where it does
  not. Every other document, the users and the blobs are as before.
\<close>

theorem update_changes_only_mutable_fields:
  assumes ok: "modify_media_info s media_id metadata_updates now owner_id = (Inr response, s')"
  shows "\<exists>old. media_read_item s media_id owner_id = Inr old
       \<and> media_read_item s' media_id owner_id = Inr response
       \<and> mid response = mid old
       \<and> mediaType response = mediaType old
       \<and> fileSize response = fileSize old
       \<and> userId response = userId old
       \<and> originalFileName response = originalFileName old
       \<and> fileName response = fileName old
       \<and> blobUrl response = blobUrl old
       \<and> thumbnailUrl response = thumbnailUrl old
       \<and> mimeType response = mimeType old
       \<and> uploadedAt response = uploadedAt old
       \<and> updatedAt response = now
       \<and> description response
           = (case mod_description metadata_updates of None \<Rightarrow> description old | Some d \<Rightarrow> Some d)
       \<and> tags response
           = (case mod_tags metadata_updates of
                None \<Rightarrow> tags old
              | Some ts \<Rightarrow> Some (map JString ts))
       \<and> media_container s'
           = map (\<lambda>d. if mid d = media_id \<and> userId d = owner_id then response else d)
               (media_container s)
       \<and> users_container s' = users_container s
       \<and> blobs s' = blobs s"
proof -
  let ?payload = "\<lparr>payload_updatedAt = now,
                   payload_description = mod_description metadata_updates,
                   payload_tags = mod_tags metadata_updates\<rparr>"
  from ok have body: "modify_body s media_id metadata_updates now owner_id = (Inr response, s')"
    by (auto simp: modify_media_info_def split: prod.splits sum.splits if_splits)
  then obtain existing where
    got: "get_media_by_id s media_id owner_id = (Inr (Some existing), s)"
    by (cases "get_media_by_id s media_id owner_id")
      (auto simp: modify_body_def split: sum.splits option.splits if_splits
        dest: get_media_by_id_owner)
  from body got have upd: "update_media s media_id owner_id ?payload = (Inr response, s')"
    by (auto simp: modify_body_def Let_def ContentRecord_def
        split: sum.splits option.splits if_splits prod.splits)
  from update_media_ok [OF upd] obtain old where
    old: "find (\<lambda>d. mid d = media_id \<and> userId d = owner_id) (media_container s) = Some old"
    and resp: "response = dict_update old ?payload"
    and st: "s' = s\<lparr>media_container :=
                     map (\<lambda>d. if mid d = media_id \<and> userId d = owner_id then response else d)
                       (media_container s)\<rparr>"
    by blast
  have up: "\<not> cosmos_down s"
    using got by (auto simp: get_media_by_id_def media_read_item_def reraise_logged_def
        unavailable_def)
  have key: "mid old = media_id" "userId old = owner_id" "old \<in> set (media_container s)"
    using old by (auto simp: find_Some_iff in_set_conv_nth)
  then have key': "mid response = media_id" "userId response = owner_id"
    using resp by (simp_all add: dict_update_def)
  have before: "media_read_item s media_id owner_id = Inr old"
    using up old by (simp add: media_read_item_def)
  have "find (\<lambda>d. mid d = media_id \<and> userId d = owner_id)
          (map (\<lambda>d. if mid d = media_id \<and> userId d = owner_id then response else d) xs)
        = Some response"
    if "\<exists>d \<in> set xs. mid d = media_id \<and> userId d = owner_id" for xs
    using that key' by (induction xs) auto
  moreover have "\<exists>d \<in> set (media_container s). mid d = media_id \<and> userId d = owner_id"
    using key by blast
  ultimately have found: "find (\<lambda>d. mid d = media_id \<and> userId d = owner_id)
          (map (\<lambda>d. if mid d = media_id \<and> userId d = owner_id then response else d)
             (media_container s))
        = Some response"
    by blast
  have after: "media_read_item s' media_id owner_id = Inr response"
    using up found by (subst st) (simp add: media_read_item_def)
  show ?thesis
    using before after st
    by (intro exI [of _ old]) (simp add: resp dict_update_def)
qed

theorem update_changes_only_mutable_fields_witness:
  "\<exists>response s'.
     modify_media_info sample_library ''m1'' sample_patch ''2024-02-01T08:00:00'' ''alice''
       = (Inr response, s')
     \<and> mediaType response = ''image''
     \<and> fileSize response = 1024
     \<and> userId response = ''alice''
     \<and> originalFileName response = ''Beach.JPG''
     \<and> uploadedAt response = ''2024-01-01T10:00:00''
     \<and> updatedAt response = ''2024-02-01T08:00:00''
     \<and> description response = None
     \<and> tags response = Some [JString ''beach'']"
proof -
  let ?x = "modify_media_info sample_library ''m1'' sample_patch ''2024-02-01T08:00:00'' ''alice''"
  have "\<not> isl (fst ?x)" by code_simp
  then obtain response where "fst ?x = Inr response" by (cases "fst ?x") auto
  then have eq: "?x = (Inr response, snd ?x)" by (cases ?x) simp
  have before: "media_read_item sample_library ''m1'' ''alice''
          = Inr (sample_doc ''m1'' ''alice'' ''image'' ''Beach.JPG'' (Some [JString ''Sunset''])
                   ''2024-01-01T10:00:00'')"
    by (simp add: media_read_item_def sample_library_def sample_doc_def)
  from update_changes_only_mutable_fields [OF eq] before
  have "mediaType response = ''image''
     \<and> fileSize response = 1024
     \<and> userId response = ''alice''
     \<and> originalFileName response = ''Beach.JPG''
     \<and> uploadedAt response = ''2024-01-01T10:00:00''
     \<and> updatedAt response = ''2024-02-01T08:00:00''
     \<and> description response = None
     \<and> tags response = Some [JString ''beach'']"
    by (auto simp: sample_doc_def sample_patch_def)
  with eq show ?thesis by blast
qed

section \<open>Deletion: a failing content blob aborts, a failing thumbnail blob does not\<close>

lemma delete_file_fields [simp]:
  "media_container (snd (delete_file s name)) = media_container s"
  "users_container (snd (delete_file s name)) = users_container s"
  "cosmos_down (snd (delete_file s name)) = cosmos_down s"
  "blob_faults (snd (delete_file s name)) = blob_faults s"
  by (simp_all add: delete_file_def)

lemma delete_file_fails:
  "fst (delete_file s name) = Inl e \<Longrightarrow> delete_file s name = (Inl e, s)"
  by (auto simp: delete_file_def split: if_splits)

lemma delete_file_ok:
  "fst (delete_file s name) = Inr u \<Longrightarrow>
   delete_file s name = (Inr (), s\<lparr>blobs := removeAll name (blobs s)\<rparr>)"
  by (auto simp: delete_file_def split: if_splits)

lemma read_item_found:
  "media_read_item s media_id owner_id = Inr r \<Longrightarrow>
   \<not> cosmos_down s \<and> mid r = media_id \<and> userId r = owner_id \<and> r \<in> set (media_container s)
   \<and> get_media_by_id s media_id owner_id = (Inr (Some r), s)"
  by (auto simp: media_read_item_def get_media_by_id_def find_Some_iff
      split: if_splits option.splits)

text \<open>
  C5. Let the record be found in the caller's partition. If deleting the content blob
  raises, \<open>remove_media_file\<close> answers 500, logs the error and leaves the metadata
  container and the blobs as they were. If the content blob is deleted, the record has a
  thumbnail URL and deleting the recomputed thumbnail key raises, the handler logs a
  warning, deletes the metadata record and succeeds.
\<close>

theorem delete_blob_failure_policy:
  assumes found: "media_read_item s media_id owner_id = Inr r"
  shows "(fst (delete_file s (fileName r)) = Inl e \<longrightarrow>
            fst (remove_media_file s media_id owner_id)
              = Inl (HTTPException 500 ''Failed to delete media'')
          \<and> media_container (snd (remove_media_file s media_id owner_id)) = media_container s
          \<and> blobs (snd (remove_media_file s media_id owner_id)) = blobs s
          \<and> log (snd (remove_media_file s media_id owner_id))
              = log s @ [(''error'', ''Media deletion error: '' @ str_exn e)])
       \<and> (fst (delete_file s (fileName r)) = Inr ()
          \<and> thumbnailUrl r = Some url \<and> url \<noteq> []
          \<and> fst (delete_file (snd (delete_file s (fileName r))) (thumb_identifier r)) = Inl e' \<longrightarrow>
            fst (remove_media_file s media_id owner_id) = Inr ()
          \<and> media_container (snd (remove_media_file s media_id owner_id))
              = filter (\<lambda>d. \<not> (mid d = media_id \<and> userId d = owner_id)) (media_container s)
          \<and> blobs (snd (remove_media_file s media_id owner_id))
              = removeAll (fileName r) (blobs s)
          \<and> log (snd (remove_media_file s media_id owner_id))
              = log s @ [(''warning'', ''Thumbnail deletion failed: '' @ str_exn e')])"
proof (intro conjI impI)
  note f = read_item_found [OF found]
  {
    assume "fst (delete_file s (fileName r)) = Inl e"
    then have d: "delete_file s (fileName r) = (Inl e, s)" by (rule delete_file_fails)
    have "\<not> is_HTTPException e"
      using d by (auto simp: delete_file_def split: if_splits)
    then have res: "remove_media_file s media_id owner_id
            = (Inl (HTTPException 500 ''Failed to delete media''),
               logged ''error'' (''Media deletion error: '' @ str_exn e) s)"
      using f d by (simp add: remove_media_file_def remove_body_def)
    show "fst (remove_media_file s media_id owner_id)
            = Inl (HTTPException 500 ''Failed to delete media'')"
      "media_container (snd (remove_media_file s media_id owner_id)) = media_container s"
      "blobs (snd (remove_media_file s media_id owner_id)) = blobs s"
      "log (snd (remove_media_file s media_id owner_id))
              = log s @ [(''error'', ''Media deletion error: '' @ str_exn e)]"
      by (simp_all add: res)
  }
  {
    assume a: "fst (delete_file s (fileName r)) = Inr ()
          \<and> thumbnailUrl r = Some url \<and> url \<noteq> []
          \<and> fst (delete_file (snd (delete_file s (fileName r))) (thumb_identifier r)) = Inl e'"
    let ?s1 = "s\<lparr>blobs := removeAll (fileName r) (blobs s)\<rparr>"
    from a have d1: "delete_file s (fileName r) = (Inr (), ?s1)" by (auto dest: delete_file_ok)
    with a have d2: "delete_file ?s1 (thumb_identifier r) = (Inl e', ?s1)"
      by (auto dest: delete_file_fails)
    let ?s2 = "logged ''warning'' (''Thumbnail deletion failed: '' @ str_exn e') ?s1"
    have thumb: "remove_thumbnail ?s1 r = ?s2"
      using a d2 by (simp add: remove_thumbnail_def)
    have ex: "\<exists>d \<in> set (media_container ?s2). mid d = media_id \<and> userId d = owner_id"
      using f by auto
    have del: "delete_media ?s2 media_id owner_id
                 = (Inr True, ?s2\<lparr>media_container :=
                      filter (\<lambda>d. \<not> (mid d = media_id \<and> userId d = owner_id))
                        (media_container ?s2)\<rparr>)"
      using f ex by (simp add: delete_media_def media_delete_item_def)
    have res: "remove_media_file s media_id owner_id
                 = (Inr (), ?s2\<lparr>media_container :=
                      filter (\<lambda>d. \<not> (mid d = media_id \<and> userId d = owner_id))
                        (media_container ?s2)\<rparr>)"
      using f d1 thumb del by (simp add: remove_media_file_def remove_body_def)
    show "fst (remove_media_file s media_id owner_id) = Inr ()"
      "media_container (snd (remove_media_file s media_id owner_id))
              = filter (\<lambda>d. \<not> (mid d = media_id \<and> userId d = owner_id)) (media_container s)"
      "blobs (snd (remove_media_file s media_id owner_id)) = removeAll (fileName r) (blobs s)"
      "log (snd (remove_media_file s media_id owner_id))
              = log s @ [(''warning'', ''Thumbnail deletion failed: '' @ str_exn e')]"
      by (simp_all add: res)
  }
qed

theorem delete_blob_failure_policy_witness:
  "fst (remove_media_file sample_faulty ''m1'' ''alice'')
     = Inl (HTTPException 500 ''Failed to delete media'')
   \<and> media_container (snd (remove_media_file sample_faulty ''m1'' ''alice''))
       = media_container sample_faulty
   \<and> fst (remove_media_file sample_thumb_faulty ''m7'' ''alice'') = Inr ()
   \<and> media_container (snd (remove_media_file sample_thumb_faulty ''m7'' ''alice'')) = []
   \<and> log (snd (remove_media_file sample_thumb_faulty ''m7'' ''alice''))
       = [(''warning'', ''Thumbnail deletion failed: delete failed'')]"
proof -
  have r1: "media_read_item sample_faulty ''m1'' ''alice'' = Inr (hd (media_container sample_faulty))"
    by (simp add: media_read_item_def sample_faulty_def sample_library_def sample_doc_def)
  have f1: "fst (delete_file sample_faulty (fileName (hd (media_container sample_faulty))))
              = Inl (BlobError ''delete failed'')"
    by (simp add: delete_file_def sample_faulty_def sample_library_def sample_doc_def
        blob_name_def)
  have r2: "media_read_item sample_thumb_faulty ''m7'' ''alice'' = Inr sample_thumb_doc"
    by (simp add: media_read_item_def sample_thumb_faulty_def sample_thumb_doc_def sample_doc_def)
  have f2: "fst (delete_file sample_thumb_faulty (fileName sample_thumb_doc)) = Inr ()
          \<and> thumbnailUrl sample_thumb_doc = Some (blob_url ''alice/thumb_pier.jpg'')
          \<and> blob_url ''alice/thumb_pier.jpg'' \<noteq> []
          \<and> fst (delete_file (snd (delete_file sample_thumb_faulty (fileName sample_thumb_doc)))
                   (thumb_identifier sample_thumb_doc)) = Inl (BlobError ''delete failed'')"
    by (simp add: delete_file_def sample_thumb_faulty_def sample_thumb_doc_def sample_doc_def
        blob_name_def blob_url_def)
  from delete_blob_failure_policy [OF r1, of "BlobError ''delete failed''"] f1
    delete_blob_failure_policy [OF r2, of _ "blob_url ''alice/thumb_pier.jpg''"
      "BlobError ''delete failed''"] f2
  show ?thesis
    by (simp add: sample_thumb_faulty_def sample_thumb_doc_def sample_doc_def)
qed

section \<open>Upload: tags that are not an array\<close>

text \<open>
  Malformed JSON in the tags field answers 400 before anything is written. JSON that
  parses to something other than an array raises \<open>ValueError\<close> inside a
  \<^verbatim>\<open>try\<close> that catches \<open>JSONDecodeError\<close> only, so it reaches the outer handler
  and answers 500; nothing is written either.
\<close>

lemma upload_malformed_tags:
  assumes "validate_file_type env uploaded_file = Inr media_kind"
    and "validate_file_size env uploaded_file = Inr size_in_bytes"
    and "t \<noteq> []" and "json_loads env t = Inl (JSONDecodeError m)"
  shows "process_file_upload env s uploaded_file file_description (Some t) current_user
           = (Inl (HTTPException 400 ''Invalid tags format. Must be a JSON array.''), s)"
  using assms by (simp add: process_file_upload_def upload_body_def parse_tags_def)

lemma upload_non_array_tags:
  assumes "validate_file_type env uploaded_file = Inr media_kind"
    and "validate_file_size env uploaded_file = Inr size_in_bytes"
    and "t \<noteq> []" and "json_loads env t = Inr v" and "\<not> is_JArray v"
  shows "process_file_upload env s uploaded_file file_description (Some t) current_user
           = (Inl (HTTPException 500 ''Failed to upload media: Tags must be an array''),
              logged ''error'' ''File upload failed: Tags must be an array'' s)"
  using assms
  by (cases v) (simp_all add: process_file_upload_def upload_body_def parse_tags_def)

text \<open>
  C2 at a concrete input: an upload of a valid JPEG whose tags field is \<open>{}\<close>, a JSON
  object. The answer is 500 with the detail
  \<open>Failed to upload media: Tags must be an array\<close>, not 400; no blob and no metadata
  record is written.
\<close>

theorem upload_object_tags_answers_500:
  "sample_json_loads ''{}'' = Inr (JObject [])
   \<and> process_file_upload sample_env sample_users sample_photo None (Some ''{}'') ''u1''
       = (Inl (HTTPException 500 ''Failed to upload media: Tags must be an array''),
          logged ''error'' ''File upload failed: Tags must be an array'' sample_users)
   \<and> blobs (snd (process_file_upload sample_env sample_users sample_photo None (Some ''{}'') ''u1''))
       = []
   \<and> media_container
        (snd (process_file_upload sample_env sample_users sample_photo None (Some ''{}'') ''u1''))
       = []"
  by (simp add: process_file_upload_def upload_body_def parse_tags_def sample_env_def
      sample_json_loads_def sample_photo_def sample_users_def logged_def)

section \<open>The thumbnail key at upload and at delete\<close>

text \<open>
  For a plain file name the key recomputed at delete time is the key the thumbnail was
  stored under, and a delete removes both blobs.
\<close>

lemma thumbnail_key_plain_name:
  "blobs (sample_after_upload sample_photo) = [''u1/thumb_photo.jpg'', ''u1/photo.jpg'']
   \<and> map thumb_identifier (media_container (sample_after_upload sample_photo))
       = [''u1/thumb_photo.jpg'']
   \<and> blobs (snd (remove_media_file (sample_after_upload sample_photo) ''id-1'' ''u1'')) = []"
  by code_simp

text \<open>
  C8 at a concrete input: the file name \<open>trip/pier.jpg\<close>. The upload stores the
  thumbnail under the key made from \<open>thumb_\<close> followed by the whole file name; the
  delete puts \<open>thumb_\<close> before the last path component only. The two keys differ, the
  thumbnail delete fails and is logged, the record is removed and the thumbnail blob stays.
\<close>

theorem thumbnail_key_mismatch:
  "map originalFileName (media_container (sample_after_upload sample_nested)) = [''trip/pier.jpg'']
   \<and> blobs (sample_after_upload sample_nested) = [''u1/thumb_trip/pier.jpg'', ''u1/trip/pier.jpg'']
   \<and> map thumb_identifier (media_container (sample_after_upload sample_nested))
       = [''u1/trip/thumb_pier.jpg'']
   \<and> fst (remove_media_file (sample_after_upload sample_nested) ''id-1'' ''u1'') = Inr ()
   \<and> media_container (snd (remove_media_file (sample_after_upload sample_nested) ''id-1'' ''u1''))
       = []
   \<and> blobs (snd (remove_media_file (sample_after_upload sample_nested) ''id-1'' ''u1''))
       = [''u1/thumb_trip/pier.jpg'']
   \<and> log (snd (remove_media_file (sample_after_upload sample_nested) ''id-1'' ''u1''))
       = [(''warning'', ''Thumbnail deletion failed: delete failed'')]"
  by code_simp

section \<open>Record identity and timestamps\<close>

subsection \<open>What each handler does to the media container\<close>

lemma reraise_logged_fields [simp]:
  "media_container (snd (reraise_logged what e s)) = media_container s"
  "fst (reraise_logged what e s) = Inl e"
  by (simp_all add: reraise_logged_def)



lemma get_media_by_id_cases:
  "(\<exists>e. fst (get_media_by_id s m u) = Inl e)
   \<or> get_media_by_id s m u = (Inr None, s)
   \<or> (\<exists>d \<in> set (media_container s). mid d = m \<and> userId d = u
         \<and> get_media_by_id s m u = (Inr (Some d), s))"
  by (auto simp: get_media_by_id_def media_read_item_def find_Some_iff split: option.splits)



lemma remove_thumbnail_container [simp]:
  "media_container (remove_thumbnail s r) = media_container s"
proof -
  have "media_container (case delete_file s n of
            (Inl e, s1) \<Rightarrow> logged ''warning'' (w e) s1
          | (Inr u, s1) \<Rightarrow> s1) = media_container s" for n w
    using delete_file_fields(1) [of s n]
    by (cases "delete_file s n") (auto split: sum.splits simp del: delete_file_fields)
  then show ?thesis by (simp add: remove_thumbnail_def split: option.splits)
qed












subsection \<open>Runs\<close>















text \<open>The sample run, evaluated: the second upload, updated once, after the first was deleted.\<close>

lemma sample_history:
  "map (\<lambda>x. (mid x, uploadedAt x, updatedAt x))
     (media_container (run sample_users
        (sample_past @ Upload sample_env2 sample_nested None None ''u1'' # sample_later)))
   = [(''id-2'', ''2024-03-02T09:00:00'', ''2024-03-03T09:00:00'')]"
  by code_simp


section \<open>The ownership comparison of update and delete\<close>

text \<open>
  As for \<open>fetch_media_details\<close>, the answer 403 of \<open>modify_media_info\<close> and of
  \<open>remove_media_file\<close> is out of reach in every state: the record that the lookup
  returns is in the caller's partition, and no later step raises an HTTP error.
\<close>

lemma update_media_not_http:
  "fst (update_media s m u p) \<noteq> Inl (HTTPException c d)"
  by (auto simp: update_media_def get_media_by_id_def media_read_item_def media_replace_item_def
      reraise_logged_def unavailable_def split: option.splits if_splits)

lemma modify_never_forbidden:
  "fst (modify_media_info s media_id metadata_updates now owner_id)
     \<noteq> Inl (HTTPException 403 detail)"
proof -
  from get_media_by_id_cases [of s media_id owner_id] consider
    (err) e where "fst (get_media_by_id s media_id owner_id) = Inl e"
    | (none) "get_media_by_id s media_id owner_id = (Inr None, s)"
    | (some) d where "userId d = owner_id"
        "get_media_by_id s media_id owner_id = (Inr (Some d), s)"
    by blast
  then show ?thesis
  proof cases
    case err
    then have "\<not> is_HTTPException e"
      by (auto simp: get_media_by_id_def media_read_item_def reraise_logged_def unavailable_def
          split: option.splits if_splits)
    with err show ?thesis
      by (cases "get_media_by_id s media_id owner_id")
        (auto simp: modify_media_info_def modify_body_def)
  next
    case none
    then show ?thesis by (simp add: modify_media_info_def modify_body_def)
  next
    case some
    let ?p = "\<lparr>payload_updatedAt = now, payload_description = mod_description metadata_updates,
               payload_tags = mod_tags metadata_updates\<rparr>"
    show ?thesis
      using some update_media_not_http [of s media_id owner_id ?p]
      by (cases "update_media s media_id owner_id ?p")
        (auto simp: modify_media_info_def modify_body_def ContentRecord_def
          split: sum.splits if_splits)
  qed
qed

lemma remove_never_forbidden:
  "fst (remove_media_file s media_id owner_id) \<noteq> Inl (HTTPException 403 detail)"
proof -
  have not_http: "\<not> is_HTTPException e" if "fst (delete_media s' m u) = Inl e" for s' m u e
    using that
    by (auto simp: delete_media_def media_delete_item_def reraise_logged_def unavailable_def
        split: if_splits)
  from get_media_by_id_cases [of s media_id owner_id] consider
    (err) e where "fst (get_media_by_id s media_id owner_id) = Inl e"
    | (none) "get_media_by_id s media_id owner_id = (Inr None, s)"
    | (some) d where "userId d = owner_id"
        "get_media_by_id s media_id owner_id = (Inr (Some d), s)"
    by blast
  then show ?thesis
  proof cases
    case err
    then have "\<not> is_HTTPException e"
      by (auto simp: get_media_by_id_def media_read_item_def reraise_logged_def unavailable_def
          split: option.splits if_splits)
    with err show ?thesis
      by (cases "get_media_by_id s media_id owner_id")
        (auto simp: remove_media_file_def remove_body_def)
  next
    case none
    then show ?thesis by (simp add: remove_media_file_def remove_body_def)
  next
    case some
    show ?thesis
    proof (cases "delete_file s (fileName d)")
      case (Pair res s2)
      show ?thesis
      proof (cases res)
        case (Inl e)
        then have "\<not> is_HTTPException e"
          using Pair by (auto simp: delete_file_def split: if_splits)
        with some Pair Inl show ?thesis
          by (simp add: remove_media_file_def remove_body_def)
      next
        case (Inr x)
        with some Pair show ?thesis
          using not_http [of "remove_thumbnail s2 d" media_id owner_id]
          by (cases "delete_media (remove_thumbnail s2 d) media_id owner_id")
            (auto simp: remove_media_file_def remove_body_def split: sum.splits)
      qed
    qed
  qed
qed

end
